theory Spec2Isabelle
  imports Complex_Main "HOL-Library.Word" "HOL-Library.Signed_Division"
begin

section \<open>Data model of \<open>pagable.go\<close>\<close>

text \<open>
  Go's \<open>int\<close> on a 64-bit target is a 64-bit two's complement integer: \<open>+\<close>, \<open>-\<close> and
  \<open>*\<close> wrap around, \<open>/\<close> and \<open>%\<close> truncate towards zero (\<open>go_div\<close>, \<open>go_mod\<close> below), comparisons are
  signed (\<open><s\<close>, \<open>\<le>s\<close>), and a division by zero panics. \<open>int(count64)\<close> is then the identity.
\<close>

type_synonym go_int = "64 word"

text \<open>
  \<open>a / b\<close> and \<open>a % b\<close> on \<open>int\<close> for \<open>b \<noteq> 0\<close>: the quotient truncated towards zero, the remainder
  with the sign of \<open>a\<close>, both wrapped to 64 bits (so \<open>MinInt64 / -1 = MinInt64\<close>).
\<close>

definition go_div :: "go_int \<Rightarrow> go_int \<Rightarrow> go_int" where
  "go_div a b = word_of_int (sint a sdiv sint b)"

definition go_mod :: "go_int \<Rightarrow> go_int \<Rightarrow> go_int" where
  "go_mod a b = word_of_int (sint a smod sint b)"

type_synonym error = string

type_synonym ptr = nat

text \<open>
  \<open>*gorm.DB\<close> is the external data source. \<open>PageQuery\<close> uses three things of it: the number
  \<open>Count\<close> writes into \<open>count64\<close>, the rows \<open>Limit(limit).Offset(offset).Find\<close> writes into
  the destination, and the field \<open>Error\<close> read afterwards. They are the parameters of the model.
\<close>

record 'row DB =
  Count :: go_int
  Find :: "go_int \<Rightarrow> go_int \<Rightarrow> 'row list"
  Error :: "error option"

text \<open>
  \<open>type Response struct\<close>. \<open>ResultSet\<close> holds the pointer the caller passed as \<open>resultPtr\<close>.
\<close>

record 'row Response =
  PageNow :: go_int
  PageCount :: go_int
  RawCount :: go_int
  RawPerPage :: go_int
  ResultSet :: ptr
  FirstPage :: bool
  LastPage :: bool
  Empty :: bool
  StartRow :: go_int
  EndRow :: go_int
  handler :: "'row DB"

text \<open>
  The package variables \<open>recovery\<close>, \<open>defaultRpp\<close> and \<open>use0Page\<close>, passed explicitly. Of a
  recovery handler the model keeps whether it calls \<open>recover()\<close>.
\<close>

datatype recoveryHandler = Recovers | Propagates

record config =
  recovery :: recoveryHandler
  defaultRpp :: go_int
  use0Page :: bool

text \<open>
  The store: the destination slices by address, and the \<open>Response\<close> objects allocated so far
  (a pointer to a \<open>Response\<close> is its index; \<open>&Response{...}\<close> appends).
\<close>

record 'row heap =
  slices :: "ptr \<Rightarrow> 'row list"
  responses :: "'row Response list"

definition deref :: "'row heap \<Rightarrow> ptr \<Rightarrow> 'row Response option" where
  "deref s r = (if r < length (responses s) then Some (responses s ! r) else None)"

text \<open>
  What a call of type \<open>(*Response, error)\<close> does: it returns its pair (\<open>nil\<close> is \<open>None\<close>), or
  it panics.
\<close>

datatype outcome = Return "ptr option" "error option" | Panics

section \<open>Operations\<close>

definition getLimitOffset :: "config \<Rightarrow> go_int \<Rightarrow> go_int \<Rightarrow> go_int \<times> go_int" where
  "getLimitOffset cfg page rpp =
     (let page = (if page <s 0 then 0 else page);
          rpp = (if rpp <s 1 then defaultRpp cfg else rpp)
      in (rpp, page * rpp))"

definition SetRecovery :: "config \<Rightarrow> recoveryHandler \<Rightarrow> config" where
  "SetRecovery cfg h = cfg\<lparr>recovery := h\<rparr>"

definition SetDefaultRPP :: "config \<Rightarrow> go_int \<Rightarrow> config \<times> error option" where
  "SetDefaultRPP cfg rpp =
     (if rpp <s 1 then (cfg, Some ''invalid input rpp'')
      else (cfg\<lparr>defaultRpp := rpp\<rparr>, None))"

definition defaultRecovery :: recoveryHandler where
  "defaultRecovery = Recovers"

text \<open>\<open>func init()\<close>, run on the zero values of the three package variables.\<close>

definition init :: config where
  "init =
     (let cfg = SetRecovery \<lparr>recovery = Propagates, defaultRpp = 0, use0Page = False\<rparr> defaultRecovery;
          cfg = fst (SetDefaultRPP cfg 25)
      in cfg\<lparr>use0Page := False\<rparr>)"

definition Use0AsFirstPage :: "config \<Rightarrow> config" where
  "Use0AsFirstPage cfg = cfg\<lparr>use0Page := True\<rparr>"

text \<open>
  \<open>PageQuery\<close>. \<open>Find\<close> overwrites the slice at \<open>resultPtr\<close> before the error is looked at.
  \<open>count / rawPerPage\<close> panics when \<open>rawPerPage\<close> is 0; the deferred \<open>recovery()\<close> then runs,
  and if it recovers, the function returns the zero values \<open>(nil, nil)\<close>.
\<close>

definition PageQuery ::
  "config \<Rightarrow> go_int \<Rightarrow> go_int \<Rightarrow> 'row DB \<Rightarrow> ptr \<Rightarrow> 'row heap \<Rightarrow> outcome \<times> 'row heap" where
  "PageQuery cfg page rawPerPage queryHandler resultPtr s =
     (let (limit, offset) =
            (if \<not> use0Page cfg then getLimitOffset cfg (page - 1) rawPerPage
             else getLimitOffset cfg page rawPerPage);
          count = Count queryHandler;
          s = s\<lparr>slices := (slices s)(resultPtr := Find queryHandler limit offset)\<rparr>
      in case Error queryHandler of
           Some err \<Rightarrow> (Return None (Some err), s)
         | None \<Rightarrow>
             if rawPerPage = 0
             then (case recovery cfg of
                     Recovers \<Rightarrow> (Return None None, s)
                   | Propagates \<Rightarrow> (Panics, s))
             else
               let pageCount = go_div count rawPerPage;
                   pageCount = (if go_mod count rawPerPage \<noteq> 0 then pageCount + 1 else pageCount);
                   empty = (pageCount <s page \<or> count = 0);
                   lastPage = (page = pageCount);
                   startRow = (if \<not> empty then page * rawPerPage else 0);
                   endRow = (if \<not> empty
                             then (if \<not> lastPage then (page + 1) * rawPerPage - 1 else count)
                             else 0)
               in (Return (Some (length (responses s))) None,
                   s\<lparr>responses := responses s @
                      [\<lparr>PageNow = page,
                        PageCount = pageCount,
                        RawCount = count,
                        RawPerPage = rawPerPage,
                        ResultSet = resultPtr,
                        FirstPage = (page = 1),
                        LastPage = lastPage,
                        Empty = empty,
                        StartRow = startRow,
                        EndRow = endRow,
                        handler = queryHandler\<rparr>]\<rparr>))"

text \<open>
  The methods of \<open>*Response\<close>. Reading a field through a pointer that is no \<open>Response\<close>
  (\<open>nil\<close>) panics outside \<open>PageQuery\<close>, so nothing recovers it.
\<close>

definition SetHandler :: "ptr \<Rightarrow> 'row DB \<Rightarrow> 'row heap \<Rightarrow> 'row heap option" where
  "SetHandler r h s =
     (case deref s r of
        None \<Rightarrow> None
      | Some R \<Rightarrow> Some (s\<lparr>responses := (responses s)[r := R\<lparr>handler := h\<rparr>]\<rparr>))"

definition GetNextPage :: "config \<Rightarrow> ptr \<Rightarrow> 'row heap \<Rightarrow> outcome \<times> 'row heap" where
  "GetNextPage cfg r s =
     (case deref s r of
        None \<Rightarrow> (Panics, s)
      | Some R \<Rightarrow> PageQuery cfg (PageNow R + 1) (RawPerPage R) (handler R) (ResultSet R) s)"

definition GetLastPage :: "config \<Rightarrow> ptr \<Rightarrow> 'row heap \<Rightarrow> outcome \<times> 'row heap" where
  "GetLastPage cfg r s =
     (case deref s r of
        None \<Rightarrow> (Panics, s)
      | Some R \<Rightarrow> PageQuery cfg (PageNow R - 1) (RawPerPage R) (handler R) (ResultSet R) s)"

definition GetEndPage :: "config \<Rightarrow> ptr \<Rightarrow> 'row heap \<Rightarrow> outcome \<times> 'row heap" where
  "GetEndPage cfg r s =
     (case deref s r of
        None \<Rightarrow> (Panics, s)
      | Some R \<Rightarrow> PageQuery cfg (PageCount R) (RawPerPage R) (handler R) (ResultSet R) s)"

definition GetFirstPage :: "config \<Rightarrow> ptr \<Rightarrow> 'row heap \<Rightarrow> outcome \<times> 'row heap" where
  "GetFirstPage cfg r s =
     (case deref s r of
        None \<Rightarrow> (Panics, s)
      | Some R \<Rightarrow>
          (let p = (if use0Page cfg then 0 else 1)
           in PageQuery cfg p (RawPerPage R) (handler R) (ResultSet R) s))"

section \<open>A data source and a store for concrete runs\<close>

text \<open>
  A data source that counts \<open>n\<close> rows and answers a fetch with the window it was asked for,
  so that the rows in the destination show the \<open>limit\<close> and the \<open>offset\<close> of the call; and the
  store before anything was allocated.
\<close>

definition window_DB :: "go_int \<Rightarrow> (go_int \<times> go_int) DB" where
  "window_DB n = \<lparr>Count = n, Find = (\<lambda>limit offset. [(limit, offset)]), Error = None\<rparr>"

definition heap0 :: "(go_int \<times> go_int) heap" where
  "heap0 = \<lparr>slices = (\<lambda>_. []), responses = []\<rparr>"

section \<open>What a navigation call does to the store\<close>

text \<open>
  \<open>refetched cfg s r R target res\<close>: the call with result \<open>res\<close>, made in store \<open>s\<close> through
  the pointer \<open>r\<close> to the response \<open>R\<close>, returned a pointer to a newly allocated response for
  page \<open>target\<close> that has the page size, the destination and the handler of \<open>R\<close>; every
  response allocated before is as it was, \<open>r\<close> still points to \<open>R\<close>; and the one slice that
  changed is the destination of \<open>R\<close>, which now holds the rows fetched for \<open>target\<close>.
\<close>

abbreviation refetched ::
  "config \<Rightarrow> 'row heap \<Rightarrow> ptr \<Rightarrow> 'row Response \<Rightarrow> go_int \<Rightarrow> outcome \<times> 'row heap \<Rightarrow> bool" where
  "refetched cfg s r R target res \<equiv>
     (\<exists>R'. res =
        (Return (Some (length (responses s))) None,
         s\<lparr>slices := (slices s)(ResultSet R := case_prod (Find (handler R))
                (getLimitOffset cfg (if use0Page cfg then target else target - 1) (RawPerPage R))),
           responses := responses s @ [R']\<rparr>)
        \<and> PageNow R' = target \<and> RawPerPage R' = RawPerPage R
        \<and> ResultSet R' = ResultSet R \<and> handler R' = handler R)
     \<and> r \<noteq> length (responses s) \<and> deref (snd res) r = Some R"

section \<open>Facts about the arithmetic and about a call that returns\<close>

lemmas run_defs =
  PageQuery_def getLimitOffset_def init_def SetRecovery_def SetDefaultRPP_def
  defaultRecovery_def Use0AsFirstPage_def window_DB_def heap0_def deref_def
  go_div_def go_mod_def GetNextPage_def GetLastPage_def GetEndPage_def GetFirstPage_def
  signed_divide_int_def signed_modulo_int_def Let_def word_sless_alt word_sle_eq

lemma PageQuery_returns:
  assumes "Error h = None" and "rpp \<noteq> 0"
  shows "PageQuery cfg page rpp h buf s =
    (let (limit, offset) = getLimitOffset cfg (if use0Page cfg then page else page - 1) rpp;
         pc = (if go_mod (Count h) rpp \<noteq> 0 then go_div (Count h) rpp + 1 else go_div (Count h) rpp);
         empty = (pc <s page \<or> Count h = 0)
     in (Return (Some (length (responses s))) None,
      s\<lparr>slices := (slices s)(buf := Find h limit offset),
        responses := responses s @
          [\<lparr>PageNow = page, PageCount = pc, RawCount = Count h, RawPerPage = rpp,
            ResultSet = buf, FirstPage = (page = 1), LastPage = (page = pc), Empty = empty,
            StartRow = (if empty then 0 else page * rpp),
            EndRow = (if empty then 0 else if page = pc then Count h else (page + 1) * rpp - 1),
            handler = h\<rparr>]\<rparr>))"
  using assms by (simp add: PageQuery_def Let_def split: prod.split)


lemma sint_range: "- (2 ^ 63) \<le> sint (a :: go_int)" "sint (a :: go_int) < 2 ^ 63"
  using sint_ge [of a] sint_lt [of a] by simp_all

lemma sint_eq_0_iff: "sint (w :: go_int) = 0 \<longleftrightarrow> w = 0"
  by (simp add: signed_eq_0_iff)

lemma sint_word_of_int_64:
  assumes "- (2 ^ 63) \<le> k" "k < 2 ^ 63"
  shows "sint (word_of_int k :: go_int) = k"
  using assms by (simp add: sint_sbintrunc' signed_take_bit_int_eq_self)

lemma sdiv_nonneg: "(0::int) \<le> a \<Longrightarrow> 0 < b \<Longrightarrow> a sdiv b = a div b"
  by (simp add: signed_divide_int_def sgn_if)

lemma smod_nonneg: "(0::int) \<le> a \<Longrightarrow> 0 < b \<Longrightarrow> a smod b = a mod b"
  by (simp add: smod_mod_positive)

lemma ceiling_div: "(0::int) < b \<Longrightarrow> \<lceil>real_of_int a / real_of_int b\<rceil> = a div b + (if a mod b \<noteq> 0 then 1 else 0)"
  by (simp add: ceiling_divide_eq_div zdiv_zminus1_eq_if)

lemma sint_go_div:
  assumes "0 \<le> sint a" "0 < sint b"
  shows "sint (go_div a b) = sint a div sint b"
proof -
  have "0 \<le> sint a div sint b" using assms by (simp add: pos_imp_zdiv_nonneg_iff)
  moreover have "sint a div sint b \<le> sint a" using assms by (simp add: div_int_pos_iff zdiv_mono2 [of "sint a" 1 "sint b", simplified])
  ultimately show ?thesis
    using assms sint_range(2) [of a]
    by (simp add: go_div_def sdiv_nonneg sint_word_of_int_64)
qed

lemma go_mod_eq_0_iff:
  assumes "0 \<le> sint a" "0 < sint b"
  shows "go_mod a b = 0 \<longleftrightarrow> sint a mod sint b = 0"
proof -
  have lo: "- (2 ^ 63) \<le> sint a mod sint b"
    using assms by (simp add: order_trans [of _ 0])
  have "sint a mod sint b < sint b" using assms by simp
  then have hi: "sint a mod sint b < 2 ^ 63"
    using sint_range(2) [of b] by linarith
  have "sint (go_mod a b) = sint a mod sint b"
    using assms sint_word_of_int_64 [OF lo hi] by (simp add: go_mod_def smod_nonneg)
  then show ?thesis using sint_eq_0_iff [of "go_mod a b"] by simp
qed

lemma sint_pageCount:
  assumes "0 \<le> sint a" "0 < sint b"
  shows "sint (if go_mod a b \<noteq> 0 then go_div a b + 1 else go_div a b) =
         sint a div sint b + (if sint a mod sint b \<noteq> 0 then 1 else 0)"
proof (cases "sint a mod sint b = 0")
  case True
  then show ?thesis
    using assms by (simp add: go_mod_eq_0_iff sint_go_div)
next
  case False
  then have "sint b \<noteq> 1" by auto
  then have "2 \<le> sint b" using assms by simp
  then have "sint a div sint b \<le> sint a div 2"
    using assms zdiv_mono2 [of "sint a" 2 "sint b"] by simp
  then have hi: "sint a div sint b + 1 < 2 ^ 63"
    using sint_range(2) [of a] by simp
  have lo: "- (2 ^ 63) \<le> sint a div sint b + 1"
    using assms by (simp add: order_trans [of _ 0] pos_imp_zdiv_nonneg_iff)
  have "sint (go_div a b + 1) = sint a div sint b + 1"
    using assms signed_take_bit_int_eq_self [OF lo hi]
    by (simp add: sint_word_ariths sint_go_div)
  then show ?thesis
    using assms False by (simp add: go_mod_eq_0_iff)
qed

lemma pageCount_zero_iff:
  assumes "(0::int) \<le> a" "0 < b"
  shows "a div b + (if a mod b \<noteq> 0 then 1 else 0) = 0 \<longleftrightarrow> a = 0"
proof
  assume h: "a div b + (if a mod b \<noteq> 0 then 1 else 0) = 0"
  have "0 \<le> a div b" using assms by (simp add: pos_imp_zdiv_nonneg_iff)
  with h have "a div b = 0" "a mod b = 0" by (auto split: if_splits)
  then show "a = 0" by (metis mult_zero_right add.right_neutral mult_div_mod_eq)
next
  assume "a = 0" then show "a div b + (if a mod b \<noteq> 0 then 1 else 0) = 0" by simp
qed

lemma PageQuery_fst:
  assumes "Error h = None" and "rpp \<noteq> 0"
  shows "fst (PageQuery cfg page rpp h buf s) = Return (Some (length (responses s))) None"
  using assms by (simp add: PageQuery_returns Let_def split: prod.split)

lemma PageQuery_slices:
  "slices (snd (PageQuery cfg page rpp h buf s)) =
     (slices s)(buf := case_prod (Find h)
        (getLimitOffset cfg (if use0Page cfg then page else page - 1) rpp))"
  by (simp add: PageQuery_def Let_def split: prod.split option.split recoveryHandler.split)

lemma PageQuery_responses:
  assumes "Error h = None" and "rpp \<noteq> 0"
  shows "\<exists>R. responses (snd (PageQuery cfg page rpp h buf s)) = responses s @ [R]
    \<and> PageNow R = page
    \<and> PageCount R = (if go_mod (Count h) rpp \<noteq> 0 then go_div (Count h) rpp + 1
                      else go_div (Count h) rpp)
    \<and> RawCount R = Count h \<and> RawPerPage R = rpp \<and> ResultSet R = buf \<and> handler R = h
    \<and> FirstPage R = (page = 1)
    \<and> LastPage R = (page = PageCount R)
    \<and> Empty R = (PageCount R <s page \<or> Count h = 0)
    \<and> StartRow R = (if Empty R then 0 else page * rpp)
    \<and> EndRow R = (if Empty R then 0 else if LastPage R then Count h else (page + 1) * rpp - 1)"
proof -
  let ?pc = "if go_mod (Count h) rpp \<noteq> 0 then go_div (Count h) rpp + 1 else go_div (Count h) rpp"
  let ?e = "?pc <s page \<or> Count h = 0"
  let ?R = "\<lparr>PageNow = page, PageCount = ?pc, RawCount = Count h, RawPerPage = rpp,
            ResultSet = buf, FirstPage = (page = 1), LastPage = (page = ?pc), Empty = ?e,
            StartRow = (if ?e then 0 else page * rpp),
            EndRow = (if ?e then 0 else if page = ?pc then Count h else (page + 1) * rpp - 1),
            handler = h\<rparr>"
  have "responses (snd (PageQuery cfg page rpp h buf s)) = responses s @ [?R]"
    using assms by (simp add: PageQuery_returns Let_def split: prod.split)
  then show ?thesis
    by (intro exI [of _ ?R]) (simp del: if_split cong: if_cong)
qed

lemma deref_snoc:
  assumes "responses s' = responses s @ [R]"
  shows "deref s' (length (responses s)) = Some R"
    and "deref s r = Some Q \<Longrightarrow> deref s' r = Some Q"
  using assms by (auto simp add: deref_def nth_append split: if_splits)

lemma go_div_mod_zero: "go_div 0 b = 0" "go_mod 0 b = 0"
  by (simp_all add: go_div_def go_mod_def signed_modulo_int_def)

lemma PageQuery_Return_SomeD:
  assumes "PageQuery cfg p rpp h buf s = (Return (Some r) None, s1)"
  shows "Error h = None" and "rpp \<noteq> 0"
  using assms
  by (auto simp add: PageQuery_def Let_def
      split: prod.splits option.splits if_splits recoveryHandler.splits)


lemma PageQuery_refetched:
  assumes "deref s r = Some R" and "Error (handler R) = None" and "RawPerPage R \<noteq> 0"
  shows "refetched cfg s r R target
           (PageQuery cfg target (RawPerPage R) (handler R) (ResultSet R) s)"
proof -
  let ?q = "PageQuery cfg target (RawPerPage R) (handler R) (ResultSet R) s"
  obtain R' where R': "responses (snd ?q) = responses s @ [R']"
    and f: "PageNow R' = target" "RawPerPage R' = RawPerPage R"
      "ResultSet R' = ResultSet R" "handler R' = handler R"
    using PageQuery_responses [OF assms(2,3), of cfg target "ResultSet R" s] by blast
  have lt: "r < length (responses s)" using assms(1) by (simp add: deref_def split: if_splits)
  have "snd ?q = s\<lparr>slices := slices (snd ?q), responses := responses (snd ?q)\<rparr>"
    by (simp add: PageQuery_def Let_def
        split: prod.split option.split recoveryHandler.split)
  then have "?q = (Return (Some (length (responses s))) None,
      s\<lparr>slices := (slices s)(ResultSet R := case_prod (Find (handler R))
                (getLimitOffset cfg (if use0Page cfg then target else target - 1) (RawPerPage R))),
        responses := responses s @ [R']\<rparr>)"
    using PageQuery_fst [OF assms(2,3), of cfg target "ResultSet R" s] R'
    by (simp add: prod_eq_iff PageQuery_slices)
  moreover have "deref (snd ?q) r = Some R" using R' assms(1) by (rule deref_snoc(2))
  ultimately show ?thesis using f lt by blast
qed

section \<open>The claims\<close>

text \<open>
  C1. Claim: for a fetch with rows and a page that is not empty, \<open>StartRow\<close> is computed from
  the zero-based page index that also gave the offset; with the default first page 1, page 1
  of size 25 over 100 rows has offset 0, \<open>StartRow = 0\<close>, \<open>EndRow = 24\<close>. The code at that
  input: the fetch asks for limit 25 at offset 0 (the row written to the destination), and
  the response says \<open>StartRow = 25\<close>, \<open>EndRow = 49\<close>, because \<open>startRow = page * rawPerPage\<close>
  uses the page as requested.
\<close>

theorem first_page_start_row_default:
  "PageQuery init 1 25 (window_DB 100) 0 heap0 =
     (Return (Some 0) None,
      heap0\<lparr>slices := (slices heap0)(0 := [(25, 0)]),
            responses :=
              [\<lparr>PageNow = 1, PageCount = 4, RawCount = 100, RawPerPage = 25, ResultSet = 0,
                FirstPage = True, LastPage = False, Empty = False, StartRow = 25, EndRow = 49,
                handler = window_DB 100\<rparr>]\<rparr>)"
  by (simp add: run_defs)

text \<open>
  C2. Claim: a call with a page size below 1 uses the default page size for the whole
  computation and returns a response. The code at page size 0, with the default recovery
  handler: the fetch uses the default limit 25, then \<open>count / rawPerPage\<close> panics, the handler
  recovers, and the call returns \<open>(nil, nil)\<close>: no response and no error.
\<close>

theorem zero_page_size_returns_nothing:
  "PageQuery init 1 0 (window_DB 100) 0 heap0 =
     (Return None None, heap0\<lparr>slices := (slices heap0)(0 := [(25, 0)])\<rparr>)"
  by (simp add: run_defs)

text \<open>
  C3. Claim: \<open>FirstPage\<close> is \<open>page = 0\<close> once \<open>Use0AsFirstPage\<close> was called. The code after
  \<open>Use0AsFirstPage\<close>, at page 0 of size 10 over 30 rows: offset 0 and \<open>FirstPage = False\<close>,
  because the field is \<open>page == 1\<close> under both conventions.
\<close>

theorem first_page_flag_zero_indexed:
  "PageQuery (Use0AsFirstPage init) 0 10 (window_DB 30) 0 heap0 =
     (Return (Some 0) None,
      heap0\<lparr>slices := (slices heap0)(0 := [(10, 0)]),
            responses :=
              [\<lparr>PageNow = 0, PageCount = 3, RawCount = 30, RawPerPage = 10, ResultSet = 0,
                FirstPage = False, LastPage = False, Empty = False, StartRow = 0, EndRow = 9,
                handler = window_DB 30\<rparr>]\<rparr>)"
  by (simp add: run_defs)

text \<open>
  C4. Claim: after \<open>Use0AsFirstPage\<close>, page 2 of size 10 over 30 rows has offset 20,
  \<open>LastPage = True\<close> and \<open>EndRow = 30\<close>. The code there: offset 20, and \<open>LastPage = False\<close>,
  \<open>EndRow = 29\<close>, because \<open>lastPage\<close> is \<open>page == PageCount\<close> (here 3) under both conventions.
\<close>

theorem last_page_zero_indexed:
  "PageQuery (Use0AsFirstPage init) 2 10 (window_DB 30) 0 heap0 =
     (Return (Some 0) None,
      heap0\<lparr>slices := (slices heap0)(0 := [(10, 20)]),
            responses :=
              [\<lparr>PageNow = 2, PageCount = 3, RawCount = 30, RawPerPage = 10, ResultSet = 0,
                FirstPage = False, LastPage = False, Empty = False, StartRow = 20, EndRow = 29,
                handler = window_DB 30\<rparr>]\<rparr>)"
  by (simp add: run_defs)




text \<open>
  C6. For a count of at least 0 and a page size of at least 1 (and a data source without
  error), the call returns a response whose \<open>PageCount\<close> is the ceiling of count / page size,
  and \<open>PageCount\<close> is 0 exactly when the count is 0.
\<close>

theorem pageCount_is_ceiling:
  assumes "Error h = None" and "0 \<le>s Count h" and "1 \<le>s rpp"
  shows "\<exists>r R. fst (PageQuery cfg page rpp h buf s) = Return (Some r) None
      \<and> deref (snd (PageQuery cfg page rpp h buf s)) r = Some R
      \<and> sint (PageCount R) = \<lceil>real_of_int (sint (Count h)) / real_of_int (sint rpp)\<rceil>
      \<and> (PageCount R = 0 \<longleftrightarrow> Count h = 0)"
proof -
  have a: "0 \<le> sint (Count h)" and b: "0 < sint rpp"
    using assms by (simp_all add: word_sle_eq)
  then have nz: "rpp \<noteq> 0" by auto
  let ?pc = "if go_mod (Count h) rpp \<noteq> 0 then go_div (Count h) rpp + 1 else go_div (Count h) rpp"
  let ?n = "sint (Count h) div sint rpp + (if sint (Count h) mod sint rpp \<noteq> 0 then 1 else 0)"
  have n: "sint ?pc = ?n"
    using a b by (rule sint_pageCount)
  have c: "\<lceil>real_of_int (sint (Count h)) / real_of_int (sint rpp)\<rceil> = ?n"
    using b by (rule ceiling_div)
  have "?pc = 0 \<longleftrightarrow> sint ?pc = 0" by (simp only: sint_eq_0_iff)
  also have "\<dots> \<longleftrightarrow> sint (Count h) = 0"
    unfolding n using a b by (rule pageCount_zero_iff)
  also have "\<dots> \<longleftrightarrow> Count h = 0" by (simp only: sint_eq_0_iff)
  finally have z: "?pc = 0 \<longleftrightarrow> Count h = 0" .
  have q: "PageQuery cfg page rpp h buf s =
      (Return (Some (length (responses s))) None, snd (PageQuery cfg page rpp h buf s))"
    and d: "deref (snd (PageQuery cfg page rpp h buf s)) (length (responses s)) =
      Some (last (responses (snd (PageQuery cfg page rpp h buf s))))"
    and p: "PageCount (last (responses (snd (PageQuery cfg page rpp h buf s)))) = ?pc"
    using assms(1) nz
    by (simp_all add: PageQuery_returns Let_def deref_def split: prod.split)
  show ?thesis
    apply (rule exI [of _ "length (responses s)"])
    apply (rule exI [of _ "last (responses (snd (PageQuery cfg page rpp h buf s)))"])
    apply (subst q)
    apply (simp only: fst_conv d p n c z)
    done
qed

text \<open>C6 at 101 rows in pages of 25: five pages.\<close>

theorem pageCount_is_ceiling_witness:
  "Error (window_DB 101) = None \<and> 0 \<le>s Count (window_DB 101) \<and> 1 \<le>s (25 :: go_int) \<and>
   (\<exists>r R. fst (PageQuery init 1 25 (window_DB 101) 0 heap0) = Return (Some r) None
      \<and> deref (snd (PageQuery init 1 25 (window_DB 101) 0 heap0)) r = Some R
      \<and> sint (PageCount R) = 5
      \<and> PageCount R \<noteq> 0)"
proof -
  have h1: "Error (window_DB 101) = None" by (simp add: window_DB_def)
  have h2: "0 \<le>s Count (window_DB 101)" by (simp add: window_DB_def word_sle_eq)
  have h3: "1 \<le>s (25 :: go_int)" by (simp add: word_sle_eq)
  have v: "\<lceil>real_of_int (sint (Count (window_DB 101))) / real_of_int (sint (25 :: go_int))\<rceil> = 5"
    by (simp add: window_DB_def ceiling_divide_eq_div)
  have z: "Count (window_DB 101) \<noteq> 0" by (simp add: window_DB_def)
  show ?thesis
    using h1 h2 h3 pageCount_is_ceiling [OF h1 h2 h3, of init 1 0 heap0] unfolding v
    using z by auto
qed

text \<open>
  C7. For a page size of at least 1 (and a data source without error), the call returns a
  response for the requested page whose \<open>PageCount\<close> is the one computed from the count and
  the page size (the ceiling of count / page size when the count is at least 0), with
  \<open>Empty = (PageNow > PageCount or RawCount = 0)\<close>, the comparison being the signed one of
  \<open>int\<close>; and an empty response has \<open>StartRow = EndRow = 0\<close>.
\<close>

theorem isEmpty_characterisation:
  assumes "Error h = None" and "1 \<le>s rpp"
  shows "\<exists>r R. fst (PageQuery cfg page rpp h buf s) = Return (Some r) None
     \<and> deref (snd (PageQuery cfg page rpp h buf s)) r = Some R
     \<and> PageNow R = page \<and> RawCount R = Count h
     \<and> PageCount R = (if go_mod (Count h) rpp \<noteq> 0 then go_div (Count h) rpp + 1
                       else go_div (Count h) rpp)
     \<and> (0 \<le>s Count h \<longrightarrow>
          sint (PageCount R) = \<lceil>real_of_int (sint (Count h)) / real_of_int (sint rpp)\<rceil>)
     \<and> (Empty R \<longleftrightarrow> (PageCount R <s PageNow R \<or> RawCount R = 0))
     \<and> (Empty R \<longrightarrow> StartRow R = 0 \<and> EndRow R = 0)"
proof -
  have b: "0 < sint rpp" using assms(2) by (simp add: word_sle_eq)
  then have nz: "rpp \<noteq> 0" by auto
  let ?pc = "if go_mod (Count h) rpp \<noteq> 0 then go_div (Count h) rpp + 1 else go_div (Count h) rpp"
  obtain R where R: "responses (snd (PageQuery cfg page rpp h buf s)) = responses s @ [R]"
    and f: "PageNow R = page" "RawCount R = Count h" "PageCount R = ?pc"
    and e: "Empty R = (PageCount R <s page \<or> Count h = 0)"
    and se: "StartRow R = (if Empty R then 0 else page * rpp)"
      "EndRow R = (if Empty R then 0 else if LastPage R then Count h else (page + 1) * rpp - 1)"
    using PageQuery_responses [OF assms(1) nz, of cfg page buf s] by blast
  have c: "0 \<le>s Count h \<longrightarrow>
      sint (PageCount R) = \<lceil>real_of_int (sint (Count h)) / real_of_int (sint rpp)\<rceil>"
  proof
    assume "0 \<le>s Count h"
    then have a: "0 \<le> sint (Count h)" by (simp add: word_sle_eq)
    show "sint (PageCount R) = \<lceil>real_of_int (sint (Count h)) / real_of_int (sint rpp)\<rceil>"
      unfolding f(3) sint_pageCount [OF a b] ceiling_div [OF b] ..
  qed
  have e': "Empty R \<longleftrightarrow> (PageCount R <s PageNow R \<or> RawCount R = 0)"
    unfolding f(1,2) by (rule e)
  have z: "Empty R \<longrightarrow> StartRow R = 0 \<and> EndRow R = 0" using se by simp
  have d: "deref (snd (PageQuery cfg page rpp h buf s)) (length (responses s)) = Some R"
    using R by (rule deref_snoc(1))
  show ?thesis
    apply (rule exI [of _ "length (responses s)"])
    apply (rule exI [of _ R])
    apply (intro conjI)
           apply (rule PageQuery_fst [OF assms(1) nz])
          apply (rule d)
         apply (rule f(1))
        apply (rule f(2))
       apply (rule f(3))
      apply (rule c)
     apply (rule e')
    apply (rule z)
    done
qed

text \<open>
  C7 at page 10 of 100 rows in pages of 25: four pages, so the response is empty, with
  \<open>StartRow = EndRow = 0\<close>.
\<close>

theorem isEmpty_characterisation_witness:
  "Error (window_DB 100) = None \<and> 1 \<le>s (25 :: go_int) \<and>
   (\<exists>r R. fst (PageQuery init 10 25 (window_DB 100) 0 heap0) = Return (Some r) None
     \<and> deref (snd (PageQuery init 10 25 (window_DB 100) 0 heap0)) r = Some R
     \<and> PageNow R = 10 \<and> RawCount R = 100 \<and> PageCount R = 4 \<and> sint (PageCount R) = 4
     \<and> Empty R \<and> StartRow R = 0 \<and> EndRow R = 0)"
proof -
  have h1: "Error (window_DB 100) = None" by (simp add: window_DB_def)
  have h2: "1 \<le>s (25 :: go_int)" by (simp add: word_sle_eq)
  have c: "Count (window_DB 100) = 100" by (simp add: window_DB_def)
  have pc: "(if go_mod 100 25 \<noteq> 0 then go_div 100 25 + 1 else go_div 100 25) = 4"
    by (simp add: go_div_def go_mod_def signed_divide_int_def signed_modulo_int_def)
  obtain r R where
    "fst (PageQuery init 10 25 (window_DB 100) 0 heap0) = Return (Some r) None"
    "deref (snd (PageQuery init 10 25 (window_DB 100) 0 heap0)) r = Some R"
    "PageNow R = 10" "RawCount R = 100" "PageCount R = 4"
    "Empty R \<longleftrightarrow> (PageCount R <s PageNow R \<or> RawCount R = 0)"
    "Empty R \<longrightarrow> StartRow R = 0 \<and> EndRow R = 0"
    using isEmpty_characterisation [OF h1 h2, of init 10 0 heap0] unfolding c pc by blast
  then show ?thesis using h1 h2 by (auto simp add: word_sless_alt)
qed

text \<open>
  C8. Claim: a navigation method returns a new response and leaves the old one unchanged,
  the items it refers to included. After page 1 (size 25, 100 rows) the destination at
  address 0, which is the \<open>ResultSet\<close> of that response, holds the rows of the window
  (25, 0); after \<open>GetNextPage\<close> on that response the same destination holds the rows of the
  window (25, 25).
\<close>

theorem next_page_overwrites_items:
  "slices (snd (PageQuery init 1 25 (window_DB 100) 0 heap0)) 0 = [(25, 0)] \<and>
   map ResultSet (responses (snd (PageQuery init 1 25 (window_DB 100) 0 heap0))) = [0] \<and>
   slices (snd (GetNextPage init 0 (snd (PageQuery init 1 25 (window_DB 100) 0 heap0)))) 0
     = [(25, 25)]"
  by (simp add: run_defs)

text \<open>
  C8, as the code has it. For a response \<open>R\<close> at \<open>r\<close> with a page size other than 0 and a
  data source without error, each of \<open>GetNextPage\<close>, \<open>GetLastPage\<close>, \<open>GetEndPage\<close> and
  \<open>GetFirstPage\<close> allocates and returns a new response (for the page after, the page before,
  page \<open>PageCount\<close>, and the first page of the convention) and leaves the fields of \<open>R\<close> and
  of every other response unchanged; the new response shares the destination of \<open>R\<close>, and
  that destination is overwritten with the rows fetched for the new page. No other slice
  changes.
\<close>

theorem navigation_refetches_into_shared_buffer:
  assumes "deref s r = Some R" and "Error (handler R) = None" and "RawPerPage R \<noteq> 0"
  shows "refetched cfg s r R (PageNow R + 1) (GetNextPage cfg r s)
     \<and> refetched cfg s r R (PageNow R - 1) (GetLastPage cfg r s)
     \<and> refetched cfg s r R (PageCount R) (GetEndPage cfg r s)
     \<and> refetched cfg s r R (if use0Page cfg then 0 else 1) (GetFirstPage cfg r s)"
proof -
  have "GetNextPage cfg r s = PageQuery cfg (PageNow R + 1) (RawPerPage R) (handler R) (ResultSet R) s"
    "GetLastPage cfg r s = PageQuery cfg (PageNow R - 1) (RawPerPage R) (handler R) (ResultSet R) s"
    "GetEndPage cfg r s = PageQuery cfg (PageCount R) (RawPerPage R) (handler R) (ResultSet R) s"
    "GetFirstPage cfg r s = PageQuery cfg (if use0Page cfg then 0 else 1) (RawPerPage R) (handler R) (ResultSet R) s"
    by (simp_all add: GetNextPage_def GetLastPage_def GetEndPage_def GetFirstPage_def assms(1))
  then show ?thesis
    using PageQuery_refetched [OF assms, of cfg] by (simp only:) blast
qed

text \<open>C8 on the response for page 1 of 4: what each method leaves in the shared destination.\<close>

theorem navigation_refetches_into_shared_buffer_witness:
  "deref (snd (PageQuery init 1 25 (window_DB 100) 0 heap0)) 0 =
     Some \<lparr>PageNow = 1, PageCount = 4, RawCount = 100, RawPerPage = 25, ResultSet = 0,
           FirstPage = True, LastPage = False, Empty = False, StartRow = 25, EndRow = 49,
           handler = window_DB 100\<rparr> \<and>
   slices (snd (GetNextPage init 0 (snd (PageQuery init 1 25 (window_DB 100) 0 heap0)))) 0
     = [(25, 25)] \<and>
   slices (snd (GetLastPage init 0 (snd (PageQuery init 1 25 (window_DB 100) 0 heap0)))) 0
     = [(25, 0)] \<and>
   slices (snd (GetEndPage init 0 (snd (PageQuery init 1 25 (window_DB 100) 0 heap0)))) 0
     = [(25, 75)] \<and>
   slices (snd (GetFirstPage init 0 (snd (PageQuery init 1 25 (window_DB 100) 0 heap0)))) 0
     = [(25, 0)]"
proof -
  let ?R = "\<lparr>PageNow = 1, PageCount = 4, RawCount = 100, RawPerPage = 25, ResultSet = 0,
           FirstPage = True, LastPage = False, Empty = False, StartRow = 25, EndRow = 49,
           handler = window_DB 100\<rparr>"
  let ?s = "snd (PageQuery init 1 25 (window_DB 100) 0 heap0)"
  have h1: "deref ?s 0 = Some ?R" by (simp add: run_defs)
  have h2: "Error (handler ?R) = None" by (simp add: window_DB_def)
  have h3: "RawPerPage ?R \<noteq> 0" by simp
  have u: "use0Page init = False" "defaultRpp init = 25" by (simp_all add: run_defs)
  show ?thesis
    using h1 navigation_refetches_into_shared_buffer [OF h1 h2 h3, of init]
    by (auto simp add: u window_DB_def getLimitOffset_def word_sless_alt)
qed

text \<open>
  C9. The data source being the same at every call (the handler kept in the response): if
  the fetch of page \<open>p\<close> returns a response, then \<open>GetNextPage\<close> on it returns a response,
  \<open>GetLastPage\<close> on that one returns a response, and the last has the \<open>PageNow\<close>, the
  \<open>PageCount\<close> and the \<open>RawCount\<close> of the first. (\<open>p + 1 - 1 = p\<close> also where \<open>p + 1\<close> wraps.)
\<close>

theorem next_then_previous_roundtrip:
  assumes "PageQuery cfg p rpp h buf s = (Return (Some r) None, s1)"
  shows "\<exists>R r2 s2 r3 s3 R3.
      deref s1 r = Some R \<and> PageNow R = p
    \<and> GetNextPage cfg r s1 = (Return (Some r2) None, s2)
    \<and> GetLastPage cfg r2 s2 = (Return (Some r3) None, s3)
    \<and> deref s3 r3 = Some R3
    \<and> PageNow R3 = PageNow R \<and> PageCount R3 = PageCount R \<and> RawCount R3 = RawCount R"
proof -
  note ok = PageQuery_Return_SomeD [OF assms]
  let ?pc = "if go_mod (Count h) rpp \<noteq> 0 then go_div (Count h) rpp + 1 else go_div (Count h) rpp"
  have r: "r = length (responses s)" and s1: "s1 = snd (PageQuery cfg p rpp h buf s)"
    using assms PageQuery_fst [OF ok, of cfg p buf s] by simp_all
  obtain R where R: "responses s1 = responses s @ [R]"
    and f: "PageNow R = p" "PageCount R = ?pc" "RawCount R = Count h"
      "RawPerPage R = rpp" "ResultSet R = buf" "handler R = h"
    using PageQuery_responses [OF ok, of cfg p buf s] unfolding s1 by blast
  have d1: "deref s1 r = Some R" unfolding r using R by (rule deref_snoc(1))
  let ?q2 = "PageQuery cfg (p + 1) rpp h buf s1"
  have n: "GetNextPage cfg r s1 = ?q2" by (simp add: GetNextPage_def d1 f)
  obtain R2 where R2: "responses (snd ?q2) = responses s1 @ [R2]"
    and f2: "PageNow R2 = p + 1" "RawPerPage R2 = rpp" "ResultSet R2 = buf" "handler R2 = h"
    using PageQuery_responses [OF ok, of cfg "p + 1" buf s1] by blast
  have d2: "deref (snd ?q2) (length (responses s1)) = Some R2" using R2 by (rule deref_snoc(1))
  let ?q3 = "PageQuery cfg p rpp h buf (snd ?q2)"
  have l: "GetLastPage cfg (length (responses s1)) (snd ?q2) = ?q3"
    by (simp add: GetLastPage_def d2 f2)
  obtain R3 where R3: "responses (snd ?q3) = responses (snd ?q2) @ [R3]"
    and f3: "PageNow R3 = p" "PageCount R3 = ?pc" "RawCount R3 = Count h"
    using PageQuery_responses [OF ok, of cfg p buf "snd ?q2"] by blast
  have d3: "deref (snd ?q3) (length (responses (snd ?q2))) = Some R3"
    using R3 by (rule deref_snoc(1))
  have e2: "GetNextPage cfg r s1 = (Return (Some (length (responses s1))) None, snd ?q2)"
    unfolding n using PageQuery_fst [OF ok, of cfg "p + 1" buf s1] by (simp add: prod_eq_iff)
  have e3: "GetLastPage cfg (length (responses s1)) (snd ?q2) =
      (Return (Some (length (responses (snd ?q2)))) None, snd ?q3)"
    unfolding l using PageQuery_fst [OF ok, of cfg p buf "snd ?q2"] by (simp add: prod_eq_iff)
  show ?thesis
    apply (rule exI [of _ R])
    apply (rule exI [of _ "length (responses s1)"])
    apply (rule exI [of _ "snd ?q2"])
    apply (rule exI [of _ "length (responses (snd ?q2))"])
    apply (rule exI [of _ "snd ?q3"])
    apply (rule exI [of _ R3])
    apply (simp only: d1 e2 e3 d3 f f3)
    done
qed

text \<open>C9 from page 2 of 4.\<close>

theorem next_then_previous_roundtrip_witness:
  "PageQuery init 2 25 (window_DB 100) 0 heap0 =
     (Return (Some 0) None, snd (PageQuery init 2 25 (window_DB 100) 0 heap0)) \<and>
   (\<exists>R r2 s2 r3 s3 R3.
      deref (snd (PageQuery init 2 25 (window_DB 100) 0 heap0)) 0 = Some R \<and> PageNow R = 2
    \<and> GetNextPage init 0 (snd (PageQuery init 2 25 (window_DB 100) 0 heap0))
        = (Return (Some r2) None, s2)
    \<and> GetLastPage init r2 s2 = (Return (Some r3) None, s3)
    \<and> deref s3 r3 = Some R3
    \<and> PageNow R3 = PageNow R \<and> PageCount R3 = PageCount R \<and> RawCount R3 = RawCount R)"
proof -
  have h: "PageQuery init 2 25 (window_DB 100) 0 heap0 =
     (Return (Some 0) None, snd (PageQuery init 2 25 (window_DB 100) 0 heap0))"
    by (simp add: run_defs)
  show ?thesis
    using h next_then_previous_roundtrip [OF h] by (intro conjI)
qed

text \<open>
  C10. For a count of 0, page 0 and a page size of at least 1 (and a data source without
  error), the call returns a response with \<open>Empty = True\<close> and \<open>LastPage = True\<close> at once.
\<close>

theorem empty_and_last_page_together:
  assumes "Error h = None" and "Count h = 0" and "1 \<le>s rpp"
  shows "\<exists>r R. fst (PageQuery cfg 0 rpp h buf s) = Return (Some r) None
     \<and> deref (snd (PageQuery cfg 0 rpp h buf s)) r = Some R
     \<and> Empty R \<and> LastPage R"
proof -
  have nz: "rpp \<noteq> 0" using assms(3) by (auto simp add: word_sle_eq)
  obtain R where R: "responses (snd (PageQuery cfg 0 rpp h buf s)) = responses s @ [R]"
    and f: "PageCount R = (if go_mod (Count h) rpp \<noteq> 0 then go_div (Count h) rpp + 1
                      else go_div (Count h) rpp)"
      "LastPage R = (0 = PageCount R)"
      "Empty R = (PageCount R <s 0 \<or> Count h = 0)"
    using PageQuery_responses [OF assms(1) nz, of cfg 0 buf s] by blast
  show ?thesis
    using PageQuery_fst [OF assms(1) nz, of cfg 0 buf s] deref_snoc(1) [OF R] f assms(2)
    by (auto simp add: go_div_mod_zero)
qed

text \<open>C10 on an empty table with page size 25.\<close>

theorem empty_and_last_page_together_witness:
  "Error (window_DB 0) = None \<and> Count (window_DB 0) = 0 \<and> 1 \<le>s (25 :: go_int) \<and>
   (\<exists>r R. fst (PageQuery init 0 25 (window_DB 0) 0 heap0) = Return (Some r) None
     \<and> deref (snd (PageQuery init 0 25 (window_DB 0) 0 heap0)) r = Some R
     \<and> Empty R \<and> LastPage R)"
proof -
  have h1: "Error (window_DB 0) = None" by (simp add: window_DB_def)
  have h2: "Count (window_DB 0) = 0" by (simp add: window_DB_def)
  have h3: "1 \<le>s (25 :: go_int)" by (simp add: word_sle_eq)
  show ?thesis
    using h1 h2 h3 empty_and_last_page_together [OF h1 h2 h3, of init 0 heap0] by (intro conjI)
qed

end
